theory Spec2Isabelle
  imports Main "HOL-Library.Sublist" "HOL-Library.Word"
begin

section \<open>Strings and substring search\<close>

text \<open>
  A C string is modelled by the characters before its terminating NUL. The source only
  asks whether \<^verbatim>\<open>strstr(haystack, needle)\<close> is non-null, that is, whether the needle
  occurs in the haystack as a contiguous run of characters, compared byte by byte.
\<close>

fun starts_with :: "string \<Rightarrow> string \<Rightarrow> bool" where
  "starts_with hs [] = True"
| "starts_with [] (n # ns) = False"
| "starts_with (h # hs) (n # ns) = (h = n \<and> starts_with hs ns)"

fun strstr :: "string \<Rightarrow> string \<Rightarrow> bool" where
  "strstr [] needle = (needle = [])"
| "strstr (h # hs) needle = (starts_with (h # hs) needle \<or> strstr hs needle)"

section \<open>CPU topology and thread affinity (CpuAffinity.cpp)\<close>

text \<open>
  The C \<^verbatim>\<open>int\<close> fields are modelled as \<open>int\<close>: the only arithmetic on them is the
  increment of a loop counter that runs between two fields, whose values never leave
  the range \<open>-1 .. 7\<close>.
\<close>

record CpuTopology =
  is_snapdragon_8_gen_2 :: bool
  prime_core :: int
  gold_cores_start :: int
  gold_cores_end :: int
  silver_cores_start :: int
  silver_cores_end :: int
  total_cores :: int

text \<open>The default member initialisers of the struct: the value of the global before
  \<^verbatim>\<open>Initialize\<close> runs.\<close>

definition default_topology :: CpuTopology where
  "default_topology =
     \<lparr>is_snapdragon_8_gen_2 = False, prime_core = -1,
      gold_cores_start = -1, gold_cores_end = -1,
      silver_cores_start = -1, silver_cores_end = -1, total_cores = 0\<rparr>"

text \<open>
  What the functions read from outside the program:
  \<^item> \<open>android\<close>: whether the file is compiled with \<^verbatim>\<open>__ANDROID__\<close> defined;
  \<^item> \<open>ro_soc_model\<close>, \<open>ro_soc_manufacturer\<close>: the strings that
    \<^verbatim>\<open>__system_property_get\<close> writes into the two buffers (empty for an unset
    property);
  \<^item> \<open>nprocessors_conf\<close>: the value of \<^verbatim>\<open>(int)sysconf(_SC_NPROCESSORS_CONF)\<close>,
    which is \<open>-1\<close> when the query fails;
  \<^item> \<open>cpu_setsize\<close>: the constant \<^verbatim>\<open>CPU_SETSIZE\<close> of the C library, the number of
    bits of a \<^verbatim>\<open>cpu_set_t\<close>.
\<close>

record sys_env =
  android :: bool
  ro_soc_model :: string
  ro_soc_manufacturer :: string
  nprocessors_conf :: int
  cpu_setsize :: int

text \<open>
  The state of the process: the global \<^verbatim>\<open>g_topology\<close> and, as the observable effect
  on the scheduler, the masks handed to \<^verbatim>\<open>sched_setaffinity\<close> so far, oldest first.
  Every such call of the source passes \<^verbatim>\<open>pthread_self()\<close> and
  \<^verbatim>\<open>sizeof(cpu_set_t)\<close> along with the mask, so a call is recorded by its mask. Log
  output is not part of the state.
\<close>

record process_state =
  g_topology :: CpuTopology
  affinity_syscalls :: "int set list"

definition initial_state :: process_state where
  "initial_state = \<lparr>g_topology = default_topology, affinity_syscalls = []\<rparr>"

definition DetectSnapdragon8Gen2 :: "sys_env \<Rightarrow> bool" where
  "DetectSnapdragon8Gen2 env =
     (if android env then
        (let soc_model = ro_soc_model env;
             soc_manufacturer = ro_soc_manufacturer env;
             is_sm8550 = (strstr soc_model ''SM8550'' \<or> strstr soc_model ''kalama'');
             is_qualcomm = (strstr soc_manufacturer ''Qualcomm'' \<or>
                            strstr soc_manufacturer ''QTI'')
         in if is_sm8550 \<and> is_qualcomm then True else False)
      else False)"

definition InitializeCpuTopology :: "sys_env \<Rightarrow> process_state \<Rightarrow> process_state" where
  "InitializeCpuTopology env s =
     (let t0 = (g_topology s)\<lparr>total_cores := nprocessors_conf env\<rparr>
      in if DetectSnapdragon8Gen2 env then
           s\<lparr>g_topology := t0\<lparr>is_snapdragon_8_gen_2 := True,
                                prime_core := 0,
                                gold_cores_start := 1,
                                gold_cores_end := 4,
                                silver_cores_start := 5,
                                silver_cores_end := 7\<rparr>\<rparr>
         else s\<lparr>g_topology := t0\<rparr>)"

definition Initialize :: "sys_env \<Rightarrow> process_state \<Rightarrow> process_state" where
  "Initialize env s = InitializeCpuTopology env s"

definition IsSnapdragon8Gen2 :: "process_state \<Rightarrow> bool" where
  "IsSnapdragon8Gen2 s = is_snapdragon_8_gen_2 (g_topology s)"

text \<open>
  The cluster list of the specification's data model, read off the struct: a cluster is
  listed when its first index is not the struct's default \<open>-1\<close>. The Prime cluster is
  the one-core range at \<open>prime_core\<close>.
\<close>

datatype ClusterRole = Prime | Gold | Silver

type_synonym ClusterSpec = "ClusterRole \<times> int \<times> int"

definition spec_clusters :: "CpuTopology \<Rightarrow> ClusterSpec list" where
  "spec_clusters t =
     (if prime_core t = -1 then [] else [(Prime, prime_core t, prime_core t)]) @
     (if gold_cores_start t = -1 then [] else [(Gold, gold_cores_start t, gold_cores_end t)]) @
     (if silver_cores_start t = -1 then []
      else [(Silver, silver_cores_start t, silver_cores_end t)])"


text \<open>
  The loop \<^verbatim>\<open>for (int i = start; i <= end; i++) v.push_back(i);\<close> that the three
  pinning functions share, with the vector built so far as accumulator.
\<close>

function push_range :: "int \<Rightarrow> int \<Rightarrow> int list \<Rightarrow> int list" where
  "push_range i e v = (if i \<le> e then push_range (i + 1) e (v @ [i]) else v)"
  by pat_completeness auto
termination
  by (relation "measure (\<lambda>(i, e, v). nat (e + 1 - i))") auto

declare push_range.simps [simp del]

text \<open>
  A \<^verbatim>\<open>cpu_set_t\<close> is the set of the CPU indices whose bit is set. The C library's
  \<^verbatim>\<open>CPU_SET(cpu, &set)\<close> sets the bit of an index below \<^verbatim>\<open>CPU_SETSIZE\<close> and does
  nothing for any other index.
\<close>

definition CPU_ZERO :: "int set" where
  "CPU_ZERO = {}"

definition CPU_SET :: "int \<Rightarrow> int \<Rightarrow> int set \<Rightarrow> int set" where
  "CPU_SET setsize cpu cpuset =
     (if 0 \<le> cpu \<and> cpu < setsize then insert cpu cpuset else cpuset)"

text \<open>The range-for loop of \<^verbatim>\<open>SetThreadAffinityToCores\<close> that fills the mask.\<close>

fun fill_cpuset :: "sys_env \<Rightarrow> CpuTopology \<Rightarrow> int list \<Rightarrow> int set \<Rightarrow> int set" where
  "fill_cpuset env t [] cpuset = cpuset"
| "fill_cpuset env t (core # cores) cpuset =
     fill_cpuset env t cores
       (if core \<ge> 0 \<and> core < total_cores t then CPU_SET (cpu_setsize env) core cpuset
        else cpuset)"

text \<open>
  \<open>os\<close> is the kernel's answer: the value \<^verbatim>\<open>sched_setaffinity\<close> returns for the
  calling thread and a given mask (\<open>0\<close> on success). The function returns its
  \<^verbatim>\<open>bool\<close> and the new state.
\<close>

definition SetThreadAffinityToCores ::
  "sys_env \<Rightarrow> (int set \<Rightarrow> int) \<Rightarrow> int list \<Rightarrow> process_state \<Rightarrow> bool \<times> process_state" where
  "SetThreadAffinityToCores env os cores s =
     (if cores = [] then (False, s)
      else
        (let cpuset = fill_cpuset env (g_topology s) cores CPU_ZERO;
             result = os cpuset;
             s' = s\<lparr>affinity_syscalls := affinity_syscalls s @ [cpuset]\<rparr>
         in if result \<noteq> 0 then (False, s') else (True, s')))"

text \<open>The vectors \<^verbatim>\<open>gold_cores\<close>, \<^verbatim>\<open>perf_cores\<close> and \<^verbatim>\<open>silver_cores\<close> that the
  pinning functions build before they call \<^verbatim>\<open>SetThreadAffinityToCores\<close>.\<close>

definition gold_cores :: "CpuTopology \<Rightarrow> int list" where
  "gold_cores t = push_range (gold_cores_start t) (gold_cores_end t) []"

definition perf_cores :: "CpuTopology \<Rightarrow> int list" where
  "perf_cores t = push_range (gold_cores_start t) (gold_cores_end t) [prime_core t]"

definition silver_cores :: "CpuTopology \<Rightarrow> int list" where
  "silver_cores t = push_range (silver_cores_start t) (silver_cores_end t) []"

definition SetPowerPCThreadAffinity ::
  "sys_env \<Rightarrow> (int set \<Rightarrow> int) \<Rightarrow> process_state \<Rightarrow> process_state" where
  "SetPowerPCThreadAffinity env os s =
     (if \<not> is_snapdragon_8_gen_2 (g_topology s) then s
      else snd (SetThreadAffinityToCores env os (gold_cores (g_topology s)) s))"

definition SetGPUThreadAffinity ::
  "sys_env \<Rightarrow> (int set \<Rightarrow> int) \<Rightarrow> process_state \<Rightarrow> process_state" where
  "SetGPUThreadAffinity env os s =
     (if \<not> is_snapdragon_8_gen_2 (g_topology s) then s
      else snd (SetThreadAffinityToCores env os (perf_cores (g_topology s)) s))"

definition SetAudioThreadAffinity ::
  "sys_env \<Rightarrow> (int set \<Rightarrow> int) \<Rightarrow> process_state \<Rightarrow> process_state" where
  "SetAudioThreadAffinity env os s =
     (if \<not> is_snapdragon_8_gen_2 (g_topology s) then s
      else snd (SetThreadAffinityToCores env os (silver_cores (g_topology s)) s))"

definition SetGenericThreadAffinity ::
  "sys_env \<Rightarrow> (int set \<Rightarrow> int) \<Rightarrow> process_state \<Rightarrow> process_state" where
  "SetGenericThreadAffinity env os s = s"

definition GetRecommendedThreadCount :: "process_state \<Rightarrow> int" where
  "GetRecommendedThreadCount s =
     (if is_snapdragon_8_gen_2 (g_topology s) then 4 else total_cores (g_topology s))"

text \<open>
  The four thread roles, one per pinning function, and the affinity plan of a role: the
  vector that the role's function hands to \<^verbatim>\<open>SetThreadAffinityToCores\<close>, and the
  empty vector where the function returns without calling it.
\<close>

datatype ThreadRole = PowerPC | GPU | Audio | Generic

fun pin_thread ::
  "ThreadRole \<Rightarrow> sys_env \<Rightarrow> (int set \<Rightarrow> int) \<Rightarrow> process_state \<Rightarrow> process_state" where
  "pin_thread PowerPC = SetPowerPCThreadAffinity"
| "pin_thread GPU = SetGPUThreadAffinity"
| "pin_thread Audio = SetAudioThreadAffinity"
| "pin_thread Generic = SetGenericThreadAffinity"

fun plan :: "CpuTopology \<Rightarrow> ThreadRole \<Rightarrow> int list" where
  "plan t PowerPC = (if \<not> is_snapdragon_8_gen_2 t then [] else gold_cores t)"
| "plan t GPU = (if \<not> is_snapdragon_8_gen_2 t then [] else perf_cores t)"
| "plan t Audio = (if \<not> is_snapdragon_8_gen_2 t then [] else silver_cores t)"
| "plan t Generic = []"

subsection \<open>The invariant of the specification's data model\<close>

text \<open>
  The specification's invariant of a topology, in its words: the core ranges are
  disjoint, non-negative and within \<open>[0, total_cores)\<close>, and an unmatched topology has
  an empty cluster list.
\<close>

definition range_cores :: "ClusterSpec \<Rightarrow> int set" where
  "range_cores c = {fst (snd c) .. snd (snd c)}"

fun ranges_disjoint :: "ClusterSpec list \<Rightarrow> bool" where
  "ranges_disjoint [] = True"
| "ranges_disjoint (c # cs) =
     (list_all (\<lambda>d. range_cores c \<inter> range_cores d = {}) cs \<and> ranges_disjoint cs)"

definition ranges_nonneg :: "ClusterSpec list \<Rightarrow> bool" where
  "ranges_nonneg cs = list_all (\<lambda>c. \<forall>i \<in> range_cores c. 0 \<le> i) cs"

definition ranges_within :: "int \<Rightarrow> ClusterSpec list \<Rightarrow> bool" where
  "ranges_within n cs = list_all (\<lambda>c. range_cores c \<subseteq> {0 ..< n}) cs"

definition CpuTopology_invariant :: "CpuTopology \<Rightarrow> bool" where
  "CpuTopology_invariant t =
     (ranges_disjoint (spec_clusters t) \<and>
      ranges_nonneg (spec_clusters t) \<and>
      ranges_within (total_cores t) (spec_clusters t) \<and>
      (\<not> is_snapdragon_8_gen_2 t \<longrightarrow> spec_clusters t = []))"

subsection \<open>Concrete devices and kernels\<close>

definition reference_device :: sys_env where
  "reference_device =
     \<lparr>android = True, ro_soc_model = ''kalama'', ro_soc_manufacturer = ''QTI'',
      nprocessors_conf = 8, cpu_setsize = 1024\<rparr>"

definition four_core_device :: sys_env where
  "four_core_device = reference_device\<lparr>nprocessors_conf := 4\<rparr>"

definition other_device :: sys_env where
  "other_device =
     \<lparr>android = True, ro_soc_model = ''sm8550'', ro_soc_manufacturer = ''QTI'',
      nprocessors_conf = 6, cpu_setsize = 1024\<rparr>"

text \<open>A kernel that accepts every mask but the empty one, which
  \<^verbatim>\<open>sched_setaffinity\<close> refuses (\<^verbatim>\<open>EINVAL\<close>: no processor in the mask).\<close>

definition kernel_accepts_nonempty :: "int set \<Rightarrow> int" where
  "kernel_accepts_nonempty cpuset = (if cpuset = {} then -1 else 0)"

section \<open>GPU detection and tuning parameters (AdrenoOptimizations.cpp)\<close>

type_synonym u32 = "32 word"

text \<open>
  A \<^verbatim>\<open>const char*\<close> argument is a \<open>string option\<close>, \<open>None\<close> the null pointer.
  Reading through a null pointer is the fault \<open>NullDereference\<close>; a function that may
  do so returns \<open>fault + bool\<close>, and \<open>Inr\<close> is a normal return.
\<close>

datatype fault = NullDereference

definition strstr_ptr :: "string option \<Rightarrow> string \<Rightarrow> fault + bool" where
  "strstr_ptr p needle =
     (case p of None \<Rightarrow> Inl NullDereference | Some hs \<Rightarrow> Inr (strstr hs needle))"

text \<open>The short-circuit operators \<^verbatim>\<open>||\<close> and \<^verbatim>\<open>&&\<close>: the right operand is
  evaluated, and can fault, only when the left one does not decide.\<close>

definition or_else :: "fault + bool \<Rightarrow> fault + bool \<Rightarrow> fault + bool" where
  "or_else a b = (case a of Inl e \<Rightarrow> Inl e | Inr x \<Rightarrow> if x then Inr True else b)"

definition and_then :: "fault + bool \<Rightarrow> fault + bool \<Rightarrow> fault + bool" where
  "and_then a b = (case a of Inl e \<Rightarrow> Inl e | Inr x \<Rightarrow> if x then b else Inr False)"

definition QUALCOMM_VENDOR_ID :: u32 where
  "QUALCOMM_VENDOR_ID = 0x5143"

definition ADRENO_740_ID_1 :: u32 where
  "ADRENO_740_ID_1 = 0x43050A01"

definition ADRENO_740_ID_2 :: u32 where
  "ADRENO_740_ID_2 = 0x43051401"

definition IsAdreno740 :: "string option \<Rightarrow> u32 \<Rightarrow> u32 \<Rightarrow> fault + bool" where
  "IsAdreno740 device_name vendor_id device_id =
     (if vendor_id \<noteq> QUALCOMM_VENDOR_ID then Inr False
      else if device_id = ADRENO_740_ID_1 \<or> device_id = ADRENO_740_ID_2 then Inr True
      else
        (case and_then (Inr (device_name \<noteq> None))
                (or_else (strstr_ptr device_name ''Adreno (TM) 740'')
                         (strstr_ptr device_name ''Adreno 740'')) of
           Inl e \<Rightarrow> Inl e
         | Inr found \<Rightarrow> if found then Inr True else Inr False))"

definition IsTurnipDriver :: "string option \<Rightarrow> fault + bool" where
  "IsTurnipDriver device_name =
     (if device_name = None then Inr False
      else or_else (or_else (strstr_ptr device_name ''turnip'')
                            (strstr_ptr device_name ''Turnip''))
                   (strstr_ptr device_name ''Mesa''))"

text \<open>
  \<^verbatim>\<open>GetOptimalExtensions\<close> returns the vector of extension names; the model pairs it
  with the lines the call writes to the log, the only place where \<open>has_turnip\<close> is
  read.
\<close>

definition GetOptimalExtensions :: "bool \<Rightarrow> string list \<times> string list" where
  "GetOptimalExtensions has_turnip =
     (let extensions = [];
          extensions = extensions @ [''VK_KHR_shader_non_semantic_info''];
          extensions = extensions @ [''VK_EXT_scalar_block_layout''];
          extensions = extensions @ [''VK_KHR_spirv_1_4''];
          extensions = extensions @ [''VK_KHR_synchronization_2''];
          extensions = extensions @ [''VK_EXT_memory_budget''];
          extensions = extensions @ [''VK_EXT_memory_priority''];
          log_lines = (if has_turnip then [''Adding Turnip-specific extensions''] else [])
      in (extensions, log_lines))"

text \<open>
  \<^verbatim>\<open>512 * 1024 * 1024\<close> is computed in 32-bit \<^verbatim>\<open>int\<close> and converted to
  \<^verbatim>\<open>size_t\<close>; the result is the signed reading of the 32-bit product, as a natural
  number.
\<close>

definition GetOptimalPipelineCacheSize :: nat where
  "GetOptimalPipelineCacheSize = nat (sint ((512 :: 32 word) * 1024 * 1024))"

record DescriptorPoolSizes =
  uniform_buffers :: u32
  combined_image_samplers :: u32
  storage_buffers :: u32
  uniform_texel_buffers :: u32
  max_sets :: u32

definition GetOptimalDescriptorPoolSizes :: DescriptorPoolSizes where
  "GetOptimalDescriptorPoolSizes =
     \<lparr>uniform_buffers = 2048, combined_image_samplers = 8192, storage_buffers = 1024,
      uniform_texel_buffers = 256, max_sets = 16384\<rparr>"

section \<open>Properties of the model\<close>

subsection \<open>Substring search finds exactly the contiguous occurrences\<close>

lemma starts_with_prefix: "starts_with hs ns = prefix ns hs"
  by (induction hs ns rule: starts_with.induct) auto

lemma strstr_sublist: "strstr hs ns = sublist ns hs"
proof (induction hs)
  case Nil
  show ?case by simp
next
  case (Cons h hs)
  then show ?case
    by (simp only: strstr.simps starts_with_prefix sublist_Cons_right)
qed

subsection \<open>Detection\<close>

lemma DetectSnapdragon8Gen2_iff:
  "DetectSnapdragon8Gen2 env \<longleftrightarrow>
     android env \<and>
     (sublist ''SM8550'' (ro_soc_model env) \<or> sublist ''kalama'' (ro_soc_model env)) \<and>
     (sublist ''Qualcomm'' (ro_soc_manufacturer env) \<or>
      sublist ''QTI'' (ro_soc_manufacturer env))"
  by (simp add: DetectSnapdragon8Gen2_def Let_def strstr_sublist)

lemma Initialize_matched:
  "DetectSnapdragon8Gen2 env \<Longrightarrow>
   g_topology (Initialize env initial_state) =
     \<lparr>is_snapdragon_8_gen_2 = True, prime_core = 0,
      gold_cores_start = 1, gold_cores_end = 4,
      silver_cores_start = 5, silver_cores_end = 7,
      total_cores = nprocessors_conf env\<rparr>"
  by (simp add: Initialize_def InitializeCpuTopology_def initial_state_def
      default_topology_def)

lemma Initialize_unmatched:
  "\<not> DetectSnapdragon8Gen2 env \<Longrightarrow>
   g_topology (Initialize env initial_state) =
     \<lparr>is_snapdragon_8_gen_2 = False, prime_core = -1,
      gold_cores_start = -1, gold_cores_end = -1,
      silver_cores_start = -1, silver_cores_end = -1,
      total_cores = nprocessors_conf env\<rparr>"
  by (simp add: Initialize_def InitializeCpuTopology_def initial_state_def
      default_topology_def)

lemma Initialize_flag:
  "is_snapdragon_8_gen_2 (g_topology (Initialize env initial_state)) =
     DetectSnapdragon8Gen2 env"
  by (cases "DetectSnapdragon8Gen2 env") (simp_all add: Initialize_matched Initialize_unmatched)

subsection \<open>Loops and vectors\<close>

lemma push_range_upto: "push_range i e v = v @ [i..e]"
proof (induction i e v rule: push_range.induct)
  case (1 i e v)
  show ?case
  proof (cases "i \<le> e")
    case True
    then have "push_range i e v = push_range (i + 1) e (v @ [i])"
      by (subst push_range.simps) simp
    also have "\<dots> = (v @ [i]) @ [i + 1..e]"
      using True by (rule "1.IH")
    also have "\<dots> = v @ [i..e]"
      using True by (simp add: upto_rec1)
    finally show ?thesis .
  next
    case False
    then show ?thesis
      by (subst push_range.simps) simp
  qed
qed

lemma fill_cpuset_eq:
  "fill_cpuset env t cores cpuset =
     cpuset \<union> {c \<in> set cores. 0 \<le> c \<and> c < total_cores t \<and> c < cpu_setsize env}"
  by (induction cores arbitrary: cpuset) (auto simp: CPU_SET_def)

lemma SetThreadAffinityToCores_empty:
  "SetThreadAffinityToCores env os [] s = (False, s)"
  by (simp add: SetThreadAffinityToCores_def)

lemma pin_thread_plan:
  "pin_thread role env os s =
     snd (SetThreadAffinityToCores env os (plan (g_topology s) role) s)"
  by (cases role)
     (simp_all add: SetPowerPCThreadAffinity_def SetGPUThreadAffinity_def
        SetAudioThreadAffinity_def SetGenericThreadAffinity_def
        SetThreadAffinityToCores_empty)

lemma matched_vectors:
  "DetectSnapdragon8Gen2 env \<Longrightarrow> t = g_topology (Initialize env initial_state) \<Longrightarrow>
   gold_cores t = [1, 2, 3, 4] \<and> perf_cores t = [0, 1, 2, 3, 4] \<and> silver_cores t = [5, 6, 7]"
  by (simp add: Initialize_matched gold_cores_def perf_cores_def silver_cores_def
      push_range_upto upto.simps)

subsection \<open>The topology after detection\<close>

lemma unmatched_clusters:
  "\<not> DetectSnapdragon8Gen2 env \<Longrightarrow>
   spec_clusters (g_topology (Initialize env initial_state)) = []"
  by (simp add: Initialize_unmatched spec_clusters_def)

lemma matched_clusters:
  "DetectSnapdragon8Gen2 env \<Longrightarrow>
   spec_clusters (g_topology (Initialize env initial_state)) =
     [(Prime, 0, 0), (Gold, 1, 4), (Silver, 5, 7)]"
  by (simp add: Initialize_matched spec_clusters_def)

lemma Initialize_total_cores:
  "total_cores (g_topology (Initialize env initial_state)) = nprocessors_conf env"
  by (cases "DetectSnapdragon8Gen2 env") (simp_all add: Initialize_matched Initialize_unmatched)

lemma detect_reference: "DetectSnapdragon8Gen2 reference_device"
  by (simp add: DetectSnapdragon8Gen2_def reference_device_def)

lemma detect_four_core: "DetectSnapdragon8Gen2 four_core_device"
  by (simp add: DetectSnapdragon8Gen2_def four_core_device_def reference_device_def)

lemma detect_other: "\<not> DetectSnapdragon8Gen2 other_device"
  by (simp add: DetectSnapdragon8Gen2_def other_device_def)

subsection \<open>The reference layout and the invariant\<close>

lemma four_core_state:
  "g_topology (Initialize four_core_device initial_state) =
     \<lparr>is_snapdragon_8_gen_2 = True, prime_core = 0,
      gold_cores_start = 1, gold_cores_end = 4,
      silver_cores_start = 5, silver_cores_end = 7, total_cores = 4\<rparr>"
  using Initialize_matched [OF detect_four_core]
  by (simp add: four_core_device_def reference_device_def)

lemma interval_within_iff:
  fixes s e n :: int
  shows "{s..e} \<subseteq> {0..<n} \<longleftrightarrow> (s \<le> e \<longrightarrow> 0 \<le> s \<and> e < n)"
proof
  assume sub: "{s..e} \<subseteq> {0..<n}"
  show "s \<le> e \<longrightarrow> 0 \<le> s \<and> e < n"
  proof
    assume "s \<le> e"
    then have "s \<in> {s..e}" and "e \<in> {s..e}" by simp_all
    with sub have "s \<in> {0..<n}" and "e \<in> {0..<n}" by blast+
    then show "0 \<le> s \<and> e < n" by simp
  qed
next
  assume "s \<le> e \<longrightarrow> 0 \<le> s \<and> e < n"
  then show "{s..e} \<subseteq> {0..<n}" by auto
qed

lemma disjoint_reference:
  "ranges_disjoint [(Prime, 0, 0), (Gold, 1, 4), (Silver, 5, 7)]"
  by (simp add: range_cores_def)

lemma nonneg_reference:
  "ranges_nonneg [(Prime, 0, 0), (Gold, 1, 4), (Silver, 5, 7)]"
  by (simp add: ranges_nonneg_def range_cores_def)

lemma within_reference:
  "ranges_within n [(Prime, 0, 0), (Gold, 1, 4), (Silver, 5, 7)] \<longleftrightarrow> 8 \<le> n"
  by (simp add: ranges_within_def range_cores_def interval_within_iff) arith

lemma four_core_total:
  "total_cores (g_topology (Initialize four_core_device initial_state)) = 4"
  by (simp add: four_core_state)

lemma four_core_setsize: "cpu_setsize four_core_device = 1024"
  by (simp add: four_core_device_def reference_device_def)

subsection \<open>Applying a plan\<close>

lemma reference_state:
  "g_topology (Initialize reference_device initial_state) =
     \<lparr>is_snapdragon_8_gen_2 = True, prime_core = 0,
      gold_cores_start = 1, gold_cores_end = 4,
      silver_cores_start = 5, silver_cores_end = 7, total_cores = 8\<rparr>"
  using Initialize_matched [OF detect_reference]
  by (simp add: reference_device_def)

lemma reference_setsize: "cpu_setsize reference_device = 1024"
  by (simp add: reference_device_def)

lemma SetThreadAffinityToCores_nonempty:
  "cores \<noteq> [] \<Longrightarrow>
   SetThreadAffinityToCores env os cores s =
     (os {c \<in> set cores. 0 \<le> c \<and> c < total_cores (g_topology s) \<and> c < cpu_setsize env} = 0,
      s\<lparr>affinity_syscalls := affinity_syscalls s @
          [{c \<in> set cores. 0 \<le> c \<and> c < total_cores (g_topology s) \<and> c < cpu_setsize env}]\<rparr>)"
  by (simp add: SetThreadAffinityToCores_def Let_def fill_cpuset_eq CPU_ZERO_def)

lemma silver_mask_four:
  "{c \<in> set [5, 6, 7]. 0 \<le> c \<and>
      c < total_cores (g_topology (Initialize four_core_device initial_state)) \<and>
      c < cpu_setsize four_core_device} = {}"
  by (auto simp add: four_core_total four_core_setsize)

lemma silver_mask_reference:
  "{c \<in> set [5, 6, 7]. 0 \<le> c \<and>
      c < total_cores (g_topology (Initialize reference_device initial_state)) \<and>
      c < cpu_setsize reference_device} = {5, 6, 7}"
  by (auto simp add: reference_state reference_setsize)

lemma initial_syscalls: "affinity_syscalls (Initialize env initial_state) = []"
  by (simp add: Initialize_def InitializeCpuTopology_def initial_state_def Let_def)

subsection \<open>GPU detection never faults\<close>

lemma IsAdreno740_eq:
  "IsAdreno740 device_name vendor_id device_id =
     Inr (vendor_id = 0x5143 \<and>
          (device_id = 0x43050A01 \<or> device_id = 0x43051401 \<or>
           (case device_name of None \<Rightarrow> False
            | Some s \<Rightarrow> sublist ''Adreno (TM) 740'' s \<or> sublist ''Adreno 740'' s)))"
  by (cases device_name)
     (simp_all add: IsAdreno740_def and_then_def or_else_def strstr_ptr_def
        strstr_sublist QUALCOMM_VENDOR_ID_def ADRENO_740_ID_1_def ADRENO_740_ID_2_def)

lemma IsTurnipDriver_eq:
  "IsTurnipDriver device_name =
     Inr (case device_name of None \<Rightarrow> False
          | Some s \<Rightarrow> sublist ''turnip'' s \<or> sublist ''Turnip'' s \<or> sublist ''Mesa'' s)"
  by (cases device_name)
     (auto simp add: IsTurnipDriver_def or_else_def strstr_ptr_def strstr_sublist)

lemma cache_size: "GetOptimalPipelineCacheSize = 536870912"
  by (simp add: GetOptimalPipelineCacheSize_def)

section \<open>The claims\<close>

text \<open>
  Claim C1. On an Android build, topology detection from the process's initial state
  marks the device as the reference topology if and only if the model string contains
  \<open>SM8550\<close> or \<open>kalama\<close> and the manufacturer string contains \<open>Qualcomm\<close> or \<open>QTI\<close>,
  as contiguous, case-sensitive substrings. On a match the layout is Prime = core 0,
  Gold = cores 1 to 4, Silver = cores 5 to 7, whatever core count the system reports;
  otherwise the cluster list is empty. The reported core count is recorded in both
  cases.
\<close>

theorem C1_detect:
  assumes "android env" and "t = g_topology (Initialize env initial_state)"
  shows "(is_snapdragon_8_gen_2 t \<longleftrightarrow>
            (sublist ''SM8550'' (ro_soc_model env) \<or> sublist ''kalama'' (ro_soc_model env)) \<and>
            (sublist ''Qualcomm'' (ro_soc_manufacturer env) \<or>
             sublist ''QTI'' (ro_soc_manufacturer env))) \<and>
         (is_snapdragon_8_gen_2 t \<longrightarrow>
            prime_core t = 0 \<and> gold_cores_start t = 1 \<and> gold_cores_end t = 4 \<and>
            silver_cores_start t = 5 \<and> silver_cores_end t = 7 \<and>
            spec_clusters t = [(Prime, 0, 0), (Gold, 1, 4), (Silver, 5, 7)]) \<and>
         (\<not> is_snapdragon_8_gen_2 t \<longrightarrow> spec_clusters t = []) \<and>
         total_cores t = nprocessors_conf env"
proof -
  have flag: "is_snapdragon_8_gen_2 t = DetectSnapdragon8Gen2 env"
    using assms(2) by (simp add: Initialize_flag)
  have iff: "DetectSnapdragon8Gen2 env \<longleftrightarrow>
      (sublist ''SM8550'' (ro_soc_model env) \<or> sublist ''kalama'' (ro_soc_model env)) \<and>
      (sublist ''Qualcomm'' (ro_soc_manufacturer env) \<or>
       sublist ''QTI'' (ro_soc_manufacturer env))"
    using assms(1) by (simp add: DetectSnapdragon8Gen2_iff)
  have m: "prime_core t = 0 \<and> gold_cores_start t = 1 \<and> gold_cores_end t = 4 \<and>
      silver_cores_start t = 5 \<and> silver_cores_end t = 7 \<and>
      spec_clusters t = [(Prime, 0, 0), (Gold, 1, 4), (Silver, 5, 7)]"
    if "DetectSnapdragon8Gen2 env"
    using that assms(2) by (simp add: Initialize_matched spec_clusters_def)
  have u: "spec_clusters t = []" if "\<not> DetectSnapdragon8Gen2 env"
    using that assms(2) by (simp add: unmatched_clusters)
  have c: "total_cores t = nprocessors_conf env"
    using assms(2) by (simp add: Initialize_total_cores)
  show ?thesis
    unfolding flag using iff m u c by blast
qed

theorem C1_detect_witness:
  "android four_core_device \<and>
   is_snapdragon_8_gen_2 (g_topology (Initialize four_core_device initial_state)) \<and>
   spec_clusters (g_topology (Initialize four_core_device initial_state)) =
     [(Prime, 0, 0), (Gold, 1, 4), (Silver, 5, 7)] \<and>
   total_cores (g_topology (Initialize four_core_device initial_state)) = 4 \<and>
   android other_device \<and>
   \<not> is_snapdragon_8_gen_2 (g_topology (Initialize other_device initial_state)) \<and>
   spec_clusters (g_topology (Initialize other_device initial_state)) = [] \<and>
   total_cores (g_topology (Initialize other_device initial_state)) = 6"
proof -
  have a4: "android four_core_device"
    by (simp add: four_core_device_def reference_device_def)
  have ao: "android other_device"
    by (simp add: other_device_def)
  have s4: "sublist ''kalama'' (ro_soc_model four_core_device) \<and>
            sublist ''QTI'' (ro_soc_manufacturer four_core_device)"
    by (simp add: four_core_device_def reference_device_def)
  have so: "\<not> sublist ''SM8550'' (ro_soc_model other_device) \<and>
            \<not> sublist ''kalama'' (ro_soc_model other_device)"
    by (simp add: other_device_def strstr_sublist [symmetric])
  show ?thesis
    using a4 ao s4 so
      C1_detect [OF a4 refl]
      C1_detect [OF ao refl]
    by (simp add: four_core_device_def reference_device_def other_device_def)
qed

text \<open>
  Claim C2. For the topology that detection produces, the plan of each role is: on a
  matched topology the Gold cores 1, 2, 3, 4 for PowerPC, Prime and Gold 0, 1, 2, 3, 4
  for GPU and the Silver cores 5, 6, 7 for Audio; on an unmatched topology the empty
  plan for these three roles; and the empty plan for Generic, there and for any other
  topology. The pinning function of a role does exactly what applying the role's plan
  does.
\<close>

theorem C2_plan:
  assumes "t = g_topology (Initialize env initial_state)"
  shows "(is_snapdragon_8_gen_2 t \<longrightarrow>
            plan t PowerPC = [1, 2, 3, 4] \<and> plan t GPU = [0, 1, 2, 3, 4] \<and>
            plan t Audio = [5, 6, 7]) \<and>
         (\<not> is_snapdragon_8_gen_2 t \<longrightarrow>
            plan t PowerPC = [] \<and> plan t GPU = [] \<and> plan t Audio = []) \<and>
         plan t Generic = [] \<and>
         plan t' Generic = [] \<and>
         pin_thread role env' os s =
           snd (SetThreadAffinityToCores env' os (plan (g_topology s) role) s)"
proof -
  have flag: "is_snapdragon_8_gen_2 t = DetectSnapdragon8Gen2 env"
    using assms by (simp add: Initialize_flag)
  have m: "plan t PowerPC = [1, 2, 3, 4] \<and> plan t GPU = [0, 1, 2, 3, 4] \<and>
           plan t Audio = [5, 6, 7]" if "is_snapdragon_8_gen_2 t"
    using that matched_vectors [OF _ assms] by (simp add: flag)
  have u: "plan t PowerPC = [] \<and> plan t GPU = [] \<and> plan t Audio = []"
    if "\<not> is_snapdragon_8_gen_2 t"
    using that by simp
  show ?thesis
    using m u by (simp add: pin_thread_plan)
qed

theorem C2_plan_witness:
  "is_snapdragon_8_gen_2 (g_topology (Initialize reference_device initial_state)) \<and>
   plan (g_topology (Initialize reference_device initial_state)) PowerPC = [1, 2, 3, 4] \<and>
   plan (g_topology (Initialize reference_device initial_state)) GPU = [0, 1, 2, 3, 4] \<and>
   plan (g_topology (Initialize reference_device initial_state)) Audio = [5, 6, 7] \<and>
   plan (g_topology (Initialize reference_device initial_state)) Generic = [] \<and>
   \<not> is_snapdragon_8_gen_2 (g_topology (Initialize other_device initial_state)) \<and>
   plan (g_topology (Initialize other_device initial_state)) PowerPC = [] \<and>
   plan (g_topology (Initialize other_device initial_state)) GPU = [] \<and>
   plan (g_topology (Initialize other_device initial_state)) Audio = [] \<and>
   plan (g_topology (Initialize other_device initial_state)) Generic = []"
proof -
  have r: "is_snapdragon_8_gen_2 (g_topology (Initialize reference_device initial_state))"
    by (simp add: Initialize_flag detect_reference)
  have o: "\<not> is_snapdragon_8_gen_2 (g_topology (Initialize other_device initial_state))"
    by (simp add: Initialize_flag detect_other)
  show ?thesis
    using r o
      C2_plan [OF refl, of reference_device]
      C2_plan [OF refl, of other_device]
    by simp
qed

text \<open>
  Claim C3. For every device name (null or not), vendor id and device id, the GPU is
  classified as Adreno 740 if and only if the vendor id is \<open>0x5143\<close> and either the
  device id is \<open>0x43050A01\<close> or \<open>0x43051401\<close>, or the name is not null and contains
  \<open>Adreno (TM) 740\<close> or \<open>Adreno 740\<close>. In particular any other vendor id gives
  "not Adreno 740" whatever the device id and name are, and the Qualcomm vendor id with
  either reference device id gives "Adreno 740" whatever the name is.
\<close>

theorem C3_family:
  "IsAdreno740 device_name vendor_id device_id =
     Inr (vendor_id = 0x5143 \<and>
          (device_id = 0x43050A01 \<or> device_id = 0x43051401 \<or>
           (case device_name of None \<Rightarrow> False
            | Some s \<Rightarrow> sublist ''Adreno (TM) 740'' s \<or> sublist ''Adreno 740'' s))) \<and>
   (vendor_id \<noteq> 0x5143 \<longrightarrow> IsAdreno740 device_name vendor_id device_id = Inr False) \<and>
   (device_id = 0x43050A01 \<or> device_id = 0x43051401 \<longrightarrow>
      IsAdreno740 device_name 0x5143 device_id = Inr True)"
  by (simp add: IsAdreno740_eq)

theorem C3_family_witness:
  "(0x5144 :: u32) \<noteq> 0x5143 \<and>
   IsAdreno740 (Some ''Adreno (TM) 740'') 0x5144 0x43050A01 = Inr False \<and>
   IsAdreno740 (Some ''Mali-G78'') 0x5143 0x43051401 = Inr True \<and>
   IsAdreno740 (Some ''Mali-G78'') 0x5143 0x43050A01 = Inr True"
proof -
  have v: "(0x5144 :: u32) \<noteq> 0x5143"
    by simp
  show ?thesis
    using v
      C3_family [of "Some ''Adreno (TM) 740''" "0x5144" "0x43050A01"]
      C3_family [of "Some ''Mali-G78''" "0x5143" "0x43051401"]
      C3_family [of "Some ''Mali-G78''" "0x5143" "0x43050A01"]
    by simp
qed

text \<open>
  Claim C4, as stated, fails: on a device with the reference signature that reports
  four cores, the Gold and Silver ranges are not contained in \<open>[0, 4)\<close>.
\<close>

theorem C4_invariant_counterexample:
  "\<not> CpuTopology_invariant (g_topology (Initialize four_core_device initial_state))"
  by (simp add: four_core_state CpuTopology_invariant_def spec_clusters_def
      ranges_within_def range_cores_def interval_within_iff)

text \<open>
  Claim C4, amended. After detection the ranges are pairwise disjoint and non-negative,
  and an unmatched topology has an empty cluster list, for every input. The ranges are
  contained in \<open>[0, total_cores)\<close>, and so the whole invariant holds, exactly when
  the device is unmatched or reports at least eight cores.
\<close>

theorem C4_invariant_amended:
  assumes "t = g_topology (Initialize env initial_state)"
  shows "ranges_disjoint (spec_clusters t) \<and>
         ranges_nonneg (spec_clusters t) \<and>
         (\<not> is_snapdragon_8_gen_2 t \<longrightarrow> spec_clusters t = []) \<and>
         (ranges_within (total_cores t) (spec_clusters t) \<longleftrightarrow>
            (is_snapdragon_8_gen_2 t \<longrightarrow> 8 \<le> nprocessors_conf env)) \<and>
         (CpuTopology_invariant t \<longleftrightarrow>
            (is_snapdragon_8_gen_2 t \<longrightarrow> 8 \<le> nprocessors_conf env))"
proof (cases "DetectSnapdragon8Gen2 env")
  case True
  then have "spec_clusters t = [(Prime, 0, 0), (Gold, 1, 4), (Silver, 5, 7)]"
    and "is_snapdragon_8_gen_2 t" and "total_cores t = nprocessors_conf env"
    using assms by (simp_all add: matched_clusters Initialize_flag Initialize_total_cores)
  then show ?thesis
    by (simp only: CpuTopology_invariant_def disjoint_reference nonneg_reference
        within_reference) simp
next
  case False
  then have "spec_clusters t = []" and "\<not> is_snapdragon_8_gen_2 t"
    using assms by (simp_all add: unmatched_clusters Initialize_flag)
  then show ?thesis
    by (simp add: CpuTopology_invariant_def ranges_nonneg_def ranges_within_def)
qed

theorem C4_invariant_amended_witness:
  "is_snapdragon_8_gen_2 (g_topology (Initialize reference_device initial_state)) \<and>
   8 \<le> nprocessors_conf reference_device \<and>
   CpuTopology_invariant (g_topology (Initialize reference_device initial_state)) \<and>
   \<not> is_snapdragon_8_gen_2 (g_topology (Initialize other_device initial_state)) \<and>
   spec_clusters (g_topology (Initialize other_device initial_state)) = [] \<and>
   CpuTopology_invariant (g_topology (Initialize other_device initial_state))"
proof -
  have r: "is_snapdragon_8_gen_2 (g_topology (Initialize reference_device initial_state))"
    by (simp add: Initialize_flag detect_reference)
  have o: "\<not> is_snapdragon_8_gen_2 (g_topology (Initialize other_device initial_state))"
    by (simp add: Initialize_flag detect_other)
  have n: "8 \<le> nprocessors_conf reference_device"
    by (simp add: reference_device_def)
  show ?thesis
    using r o n
      C4_invariant_amended [OF refl, of reference_device]
      C4_invariant_amended [OF refl, of other_device]
    by simp
qed

text \<open>
  Claim C5, as stated, fails. On a device with the reference signature that reports
  four cores the Audio plan is 5, 6, 7: every index is out of range and dropped, the
  call is still made, with the empty mask, and under a kernel that refuses the empty
  mask the function returns false. The same plan on the eight-core reference device
  returns true, so here the out-of-range indices are what makes the call fail.
\<close>

theorem C5_mask_counterexample:
  "plan (g_topology (Initialize four_core_device initial_state)) Audio = [5, 6, 7] \<and>
   fst (SetThreadAffinityToCores four_core_device kernel_accepts_nonempty [5, 6, 7]
          (Initialize four_core_device initial_state)) = False \<and>
   affinity_syscalls
     (snd (SetThreadAffinityToCores four_core_device kernel_accepts_nonempty [5, 6, 7]
             (Initialize four_core_device initial_state))) = [{}] \<and>
   fst (SetThreadAffinityToCores reference_device kernel_accepts_nonempty [5, 6, 7]
          (Initialize reference_device initial_state)) = True"
proof -
  have p: "plan (g_topology (Initialize four_core_device initial_state)) Audio = [5, 6, 7]"
    using matched_vectors [OF detect_four_core refl]
    by (simp add: Initialize_flag detect_four_core)
  have ne: "[5, 6, 7] \<noteq> ([] :: int list)"
    by simp
  have four: "SetThreadAffinityToCores four_core_device kernel_accepts_nonempty [5, 6, 7]
      (Initialize four_core_device initial_state) =
      (False, (Initialize four_core_device initial_state)\<lparr>affinity_syscalls := [{}]\<rparr>)"
    by (simp only: SetThreadAffinityToCores_nonempty [OF ne] silver_mask_four
        initial_syscalls) (simp add: kernel_accepts_nonempty_def)
  have eight: "fst (SetThreadAffinityToCores reference_device kernel_accepts_nonempty [5, 6, 7]
      (Initialize reference_device initial_state)) = True"
    by (simp only: SetThreadAffinityToCores_nonempty [OF ne] silver_mask_reference)
       (simp add: kernel_accepts_nonempty_def)
  show ?thesis
    using p four eight by simp
qed

text \<open>
  Claim C5, amended. For a non-empty plan, \<^verbatim>\<open>SetThreadAffinityToCores\<close> makes one
  \<^verbatim>\<open>sched_setaffinity\<close> call, whose mask holds exactly the plan's indices that lie in
  \<open>[0, total_cores)\<close> and below \<^verbatim>\<open>CPU_SETSIZE\<close>: the mask is built only from indices
  inside \<open>[0, total_cores)\<close>, every plan index outside that range is left out of it,
  and it is all of the in-range indices when \<open>total_cores\<close> does not exceed
  \<^verbatim>\<open>CPU_SETSIZE\<close>. The function has no failure branch of its own for an index out of
  range: it returns true exactly when the kernel accepts that mask. When at least one
  index is in range, the outcome is that of applying the in-range indices alone. When
  none is, the call is made with the empty mask and the outcome is the kernel's answer
  for the empty mask.
\<close>

theorem C5_mask_amended:
  assumes "cores \<noteq> []"
    and "cpuset = {c \<in> set cores. 0 \<le> c \<and> c < total_cores (g_topology s) \<and>
                                c < cpu_setsize env}"
    and "in_range = filter (\<lambda>c. 0 \<le> c \<and> c < total_cores (g_topology s)) cores"
  shows "SetThreadAffinityToCores env os cores s =
           (os cpuset = 0, s\<lparr>affinity_syscalls := affinity_syscalls s @ [cpuset]\<rparr>) \<and>
         cpuset \<subseteq> {c \<in> set cores. 0 \<le> c \<and> c < total_cores (g_topology s)} \<and>
         (\<forall>c \<in> set cores. \<not> (0 \<le> c \<and> c < total_cores (g_topology s)) \<longrightarrow> c \<notin> cpuset) \<and>
         (total_cores (g_topology s) \<le> cpu_setsize env \<longrightarrow>
            cpuset = {c \<in> set cores. 0 \<le> c \<and> c < total_cores (g_topology s)}) \<and>
         (in_range \<noteq> [] \<longrightarrow>
            SetThreadAffinityToCores env os cores s =
              SetThreadAffinityToCores env os in_range s) \<and>
         (in_range = [] \<longrightarrow>
            cpuset = {} \<and>
            SetThreadAffinityToCores env os cores s =
              (os {} = 0, s\<lparr>affinity_syscalls := affinity_syscalls s @ [{}]\<rparr>))"
proof -
  have call: "SetThreadAffinityToCores env os cores s =
      (os cpuset = 0, s\<lparr>affinity_syscalls := affinity_syscalls s @ [cpuset]\<rparr>)"
    using assms(1,2) by (simp add: SetThreadAffinityToCores_nonempty)
  have sub: "cpuset \<subseteq> {c \<in> set cores. 0 \<le> c \<and> c < total_cores (g_topology s)}"
    using assms(2) by blast
  have drop: "\<forall>c \<in> set cores. \<not> (0 \<le> c \<and> c < total_cores (g_topology s)) \<longrightarrow> c \<notin> cpuset"
    using assms(2) by blast
  have eq: "cpuset = {c \<in> set cores. 0 \<le> c \<and> c < total_cores (g_topology s)}"
    if "total_cores (g_topology s) \<le> cpu_setsize env"
    using that assms(2) by auto
  have same_mask: "{c \<in> set in_range. 0 \<le> c \<and> c < total_cores (g_topology s) \<and>
      c < cpu_setsize env} = cpuset"
    using assms(2,3) by auto
  have filtered: "SetThreadAffinityToCores env os cores s =
      SetThreadAffinityToCores env os in_range s" if "in_range \<noteq> []"
    using that call by (simp add: SetThreadAffinityToCores_nonempty same_mask)
  have none: "cpuset = {}" if "in_range = []"
    using that same_mask by auto
  show ?thesis
    using call sub drop eq filtered none by auto
qed

theorem C5_mask_amended_witness:
  "[0, 1, 2, 3, 4] \<noteq> ([] :: int list) \<and> [0, 1, 2, 3] \<noteq> ([] :: int list) \<and>
   SetThreadAffinityToCores four_core_device kernel_accepts_nonempty [0, 1, 2, 3, 4]
       (Initialize four_core_device initial_state) =
     (True, (Initialize four_core_device initial_state)
              \<lparr>affinity_syscalls :=
                 affinity_syscalls (Initialize four_core_device initial_state) @
                 [{0, 1, 2, 3}]\<rparr>) \<and>
   SetThreadAffinityToCores four_core_device kernel_accepts_nonempty [0, 1, 2, 3, 4]
       (Initialize four_core_device initial_state) =
     SetThreadAffinityToCores four_core_device kernel_accepts_nonempty [0, 1, 2, 3]
       (Initialize four_core_device initial_state) \<and>
   (4 :: int) \<in> set [0, 1, 2, 3, 4] \<and> (4 :: int) \<notin> {0, 1, 2, 3} \<and>
   [5, 6, 7] \<noteq> ([] :: int list) \<and>
   SetThreadAffinityToCores four_core_device kernel_accepts_nonempty [5, 6, 7]
       (Initialize four_core_device initial_state) =
     (False,
      (Initialize four_core_device initial_state)
        \<lparr>affinity_syscalls :=
           affinity_syscalls (Initialize four_core_device initial_state) @ [{}]\<rparr>)"
proof -
  have ne: "[0, 1, 2, 3, 4] \<noteq> ([] :: int list)" and ne': "[5, 6, 7] \<noteq> ([] :: int list)"
    by simp_all
  have m: "{0, 1, 2, 3} =
      {c \<in> set [0, 1, 2, 3, 4].
         0 \<le> c \<and> c < total_cores (g_topology (Initialize four_core_device initial_state)) \<and>
         c < cpu_setsize four_core_device}"
    by (auto simp add: four_core_total four_core_setsize)
  have f: "[0, 1, 2, 3] =
      filter (\<lambda>c. 0 \<le> c \<and>
                c < total_cores (g_topology (Initialize four_core_device initial_state)))
        [0, 1, 2, 3, 4]"
    by (simp add: four_core_total)
  have m': "{} =
      {c \<in> set [5, 6, 7].
         0 \<le> c \<and> c < total_cores (g_topology (Initialize four_core_device initial_state)) \<and>
         c < cpu_setsize four_core_device}"
    by (rule silver_mask_four [symmetric])
  have f': "[] =
      filter (\<lambda>c. 0 \<le> c \<and>
                c < total_cores (g_topology (Initialize four_core_device initial_state)))
        [5, 6, 7]"
    by (simp add: four_core_total)
  have k: "kernel_accepts_nonempty {0, 1, 2, 3} = 0" and k': "kernel_accepts_nonempty {} \<noteq> 0"
    by (simp_all add: kernel_accepts_nonempty_def)
  have ne2: "[0, 1, 2, 3] \<noteq> ([] :: int list)"
    by simp
  note a = C5_mask_amended [OF ne m f, of kernel_accepts_nonempty]
  note b = C5_mask_amended [OF ne' m' f', of kernel_accepts_nonempty]
  have 1: "SetThreadAffinityToCores four_core_device kernel_accepts_nonempty [0, 1, 2, 3, 4]
       (Initialize four_core_device initial_state) =
     (True, (Initialize four_core_device initial_state)
              \<lparr>affinity_syscalls :=
                 affinity_syscalls (Initialize four_core_device initial_state) @
                 [{0, 1, 2, 3}]\<rparr>)"
    using a [THEN conjunct1] k by simp
  have 2: "SetThreadAffinityToCores four_core_device kernel_accepts_nonempty [0, 1, 2, 3, 4]
       (Initialize four_core_device initial_state) =
     SetThreadAffinityToCores four_core_device kernel_accepts_nonempty [0, 1, 2, 3]
       (Initialize four_core_device initial_state)"
    using a ne2 by blast
  have 3: "SetThreadAffinityToCores four_core_device kernel_accepts_nonempty [5, 6, 7]
       (Initialize four_core_device initial_state) =
     (False,
      (Initialize four_core_device initial_state)
        \<lparr>affinity_syscalls :=
           affinity_syscalls (Initialize four_core_device initial_state) @ [{}]\<rparr>)"
    using b [THEN conjunct1] k' by simp
  show ?thesis
    using ne ne2 ne' 1 2 3 by simp
qed

text \<open>
  Claim C6. With an empty plan, \<^verbatim>\<open>SetThreadAffinityToCores\<close> returns false, makes
  no \<^verbatim>\<open>sched_setaffinity\<close> call and leaves the state as it was.
\<close>

theorem C6_empty_plan:
  "SetThreadAffinityToCores env os [] s = (False, s) \<and>
   fst (SetThreadAffinityToCores env os [] s) = False \<and>
   affinity_syscalls (snd (SetThreadAffinityToCores env os [] s)) = affinity_syscalls s"
  by (simp add: SetThreadAffinityToCores_empty)

text \<open>
  Claim C7. With a null device name, family detection returns normally for every vendor
  id and device id, without reading through the null pointer, and answers "not Adreno
  740" when the device id is neither reference id; driver detection on a null name
  returns normally with "not Turnip".
\<close>

theorem C7_null_name:
  "(\<exists>b. IsAdreno740 None vendor_id device_id = Inr b) \<and>
   (device_id \<noteq> 0x43050A01 \<and> device_id \<noteq> 0x43051401 \<longrightarrow>
      IsAdreno740 None vendor_id device_id = Inr False) \<and>
   IsTurnipDriver None = Inr False"
  by (simp add: IsAdreno740_eq IsTurnipDriver_eq)

theorem C7_null_name_witness:
  "(0xDEADBEEF :: u32) \<noteq> 0x43050A01 \<and> (0xDEADBEEF :: u32) \<noteq> 0x43051401 \<and>
   IsAdreno740 None 0x5143 0xDEADBEEF = Inr False \<and>
   IsTurnipDriver None = Inr False"
proof -
  have d: "(0xDEADBEEF :: u32) \<noteq> 0x43050A01 \<and> (0xDEADBEEF :: u32) \<noteq> 0x43051401"
    by simp
  show ?thesis
    using d C7_null_name [of "0x5143" "0xDEADBEEF"] by simp
qed

text \<open>
  Claim C8. The name \<open>Adreno (TM) 740\<close> with vendor id \<open>0x5143\<close> and device id
  \<open>0xDEADBEEF\<close> is classified as Adreno 740; the device id is neither reference id and
  the same ids with an unrelated name are not classified so, which makes the name the
  deciding input. The descriptor pool's \<open>max_sets\<close> is 16384 and the pipeline cache
  size is \<open>512 * 1024 * 1024\<close> bytes.
\<close>

theorem C8_scenario:
  "IsAdreno740 (Some ''Adreno (TM) 740'') 0x5143 0xDEADBEEF = Inr True \<and>
   (0xDEADBEEF :: u32) \<noteq> ADRENO_740_ID_1 \<and> (0xDEADBEEF :: u32) \<noteq> ADRENO_740_ID_2 \<and>
   IsAdreno740 (Some ''Mali-G78'') 0x5143 0xDEADBEEF = Inr False \<and>
   max_sets GetOptimalDescriptorPoolSizes = 16384 \<and>
   GetOptimalPipelineCacheSize = 512 * 1024 * 1024"
  by (simp add: IsAdreno740_def QUALCOMM_VENDOR_ID_def ADRENO_740_ID_1_def
      ADRENO_740_ID_2_def and_then_def or_else_def strstr_ptr_def
      GetOptimalDescriptorPoolSizes_def cache_size)

text \<open>
  Claim C9. The extension list does not depend on the driver flag: the calls with
  \<open>has_turnip\<close> true and false, and with any two values of the flag, return the same
  sequence of six extension names, in the same order.
\<close>

theorem C9_extensions:
  "fst (GetOptimalExtensions True) = fst (GetOptimalExtensions False) \<and>
   fst (GetOptimalExtensions a) = fst (GetOptimalExtensions b) \<and>
   fst (GetOptimalExtensions a) =
     [''VK_KHR_shader_non_semantic_info'', ''VK_EXT_scalar_block_layout'',
      ''VK_KHR_spirv_1_4'', ''VK_KHR_synchronization_2'',
      ''VK_EXT_memory_budget'', ''VK_EXT_memory_priority'']"
  by (simp add: GetOptimalExtensions_def)

text \<open>
  Claim C10. In every state whose topology is the one detection produced,
  \<^verbatim>\<open>GetRecommendedThreadCount\<close> returns 4 when the device is matched and the core
  count reported by the system otherwise.
\<close>

theorem C10_thread_count:
  assumes "g_topology s = g_topology (Initialize env initial_state)"
  shows "(IsSnapdragon8Gen2 s \<longrightarrow> GetRecommendedThreadCount s = 4) \<and>
         (\<not> IsSnapdragon8Gen2 s \<longrightarrow> GetRecommendedThreadCount s = nprocessors_conf env)"
  using assms
  by (simp add: IsSnapdragon8Gen2_def GetRecommendedThreadCount_def Initialize_total_cores)

theorem C10_thread_count_witness:
  "IsSnapdragon8Gen2 (Initialize four_core_device initial_state) \<and>
   GetRecommendedThreadCount (Initialize four_core_device initial_state) = 4 \<and>
   \<not> IsSnapdragon8Gen2 (Initialize other_device initial_state) \<and>
   GetRecommendedThreadCount (Initialize other_device initial_state) = 6"
proof -
  have r: "IsSnapdragon8Gen2 (Initialize four_core_device initial_state)"
    by (simp add: IsSnapdragon8Gen2_def Initialize_flag detect_four_core)
  have o: "\<not> IsSnapdragon8Gen2 (Initialize other_device initial_state)"
    by (simp add: IsSnapdragon8Gen2_def Initialize_flag detect_other)
  show ?thesis
    using r o
      C10_thread_count [OF refl, of four_core_device]
      C10_thread_count [OF refl, of other_device]
    by (simp add: other_device_def)
qed

end
